theory Spec2Isabelle
  imports Complex_Main "HOL-Library.Multiset" "HOL-Library.Option_ord"
begin

section \<open>Anomaly detection over material movements: the data model\<close>

text \<open>
  The program is \<^verbatim>\<open>src/main.py\<close>: a pandas/scipy batch computation over a frame of
  material movements. Conventions of the embedding:
  \<^item> a \<^verbatim>\<open>float64\<close> cell is a \<^typ>\<open>real option\<close>: \<open>Some x\<close> is the number \<open>x\<close>, \<open>None\<close> is
    NaN (a missing value). On the integer quantities of the schema the sums,
    quartiles and fences are computed without rounding. The Z-score is not: it
    takes a root and a quotient, and its rounding error is a parameter of the model
    (\<open>err\<close> below);
  \<^item> a frame is the list of its rows, in row order; a row is named by its position
    (the frame's index is taken to be unique, and a label is identified with the
    position of its row);
  \<^item> the group key columns \<^verbatim>\<open>unidade\<close> and \<^verbatim>\<open>material\<close>, the date, the kind and the unit
    cost are always present; only \<^verbatim>\<open>qtd\<close> may be NaN, the case the source names with
    \<^verbatim>\<open>nan_policy="omit"\<close>;
  \<^item> the functions of pandas, numpy and scipy that the source calls are written out
    as the libraries document them, each under its own name;
  \<^item> the functions of the source are pure but for \<open>build_alert_panel\<close>, which assigns
    columns to frames. It is given twice: as a function of the rows of its argument,
    and as an operation on a store of frame objects; the two are shown to agree;
  \<^item> a frame that has rows has numeric columns. A frame built from no rows at all has
    columns of dtype \<^verbatim>\<open>object\<close>; this matters in one place, the sum of an empty
    column, and is recorded for stored frames and for the returned panel.
\<close>

record movement_core =
  data :: nat
  unidade :: string
  material :: string
  tipo :: string
  qtd :: "real option"

record movement = movement_core +
  custo_unit :: real
  valor_movto :: real

text \<open>The columns of the panel that \<^verbatim>\<open>build_alert_panel\<close> returns, with the index label
  that every row of a derived frame keeps.\<close>

record alert_entry = movement_core +
  row_label :: nat
  zscore :: "real option"
  flag_zscore :: bool
  flag_iqr :: bool
  impacto :: "real option"

section \<open>Library functions the source calls\<close>

subsection \<open>NaN-aware arithmetic on cells\<close>

fun dropna :: "real option list \<Rightarrow> real list" where
  "dropna [] = []"
| "dropna (None # a) = dropna a"
| "dropna (Some v # a) = v # dropna a"

fun fsub :: "real option \<Rightarrow> real option \<Rightarrow> real option" where
  "fsub (Some x) (Some y) = Some (x - y)"
| "fsub _ _ = None"

fun fadd :: "real option \<Rightarrow> real option \<Rightarrow> real option" where
  "fadd (Some x) (Some y) = Some (x + y)"
| "fadd _ _ = None"

fun fscale :: "real \<Rightarrow> real option \<Rightarrow> real option" where
  "fscale k (Some x) = Some (k * x)"
| "fscale k None = None"

text \<open>A comparison with NaN on either side is false.\<close>

fun flt :: "real option \<Rightarrow> real option \<Rightarrow> bool" where
  "flt (Some x) (Some y) = (x < y)"
| "flt _ _ = False"

fun fgt_thresh :: "real option \<Rightarrow> real \<Rightarrow> bool" where
  "fgt_thresh (Some x) t = (t < x)"
| "fgt_thresh None t = False"


fun fabs :: "real option \<Rightarrow> real option" where
  "fabs (Some x) = Some \<bar>x\<bar>"
| "fabs None = None"

subsection \<open>Rounding to two decimals\<close>

text \<open>\<^verbatim>\<open>round(2)\<close> of numpy: scale by 100, round to the nearest integer with halves
  going to the even neighbour, scale back. NaN stays NaN.\<close>

definition rint :: "real \<Rightarrow> int" where
  "rint x = (let f = \<lfloor>x\<rfloor>; d = x - of_int f in
     if d < 1 / 2 then f
     else if 1 / 2 < d then f + 1
     else if even f then f else f + 1)"

definition round2 :: "real \<Rightarrow> real" where
  "round2 x = of_int (rint (x * 100)) / 100"

definition fround2 :: "real option \<Rightarrow> real option" where
  "fround2 c = map_option round2 c"

subsection \<open>scipy.stats.zscore with NaN omitted\<close>

definition mean :: "real list \<Rightarrow> real" where
  "mean vs = sum_list vs / real (length vs)"

text \<open>\<^verbatim>\<open>std\<close> with \<open>ddof\<close> delta degrees of freedom: the divisor is \<open>N - ddof\<close>.\<close>

definition variance :: "nat \<Rightarrow> real list \<Rightarrow> real" where
  "variance ddof vs = sum_list (map (\<lambda>v. (v - mean vs)\<^sup>2) vs) / real (length vs - ddof)"

definition std :: "nat \<Rightarrow> real list \<Rightarrow> real" where
  "std ddof vs = sqrt (variance ddof vs)"

text \<open>\<^verbatim>\<open>stats.zscore(x, nan_policy="omit")\<close>: \<open>ddof\<close> is left at its default 0. Mean and
  deviation are taken over the numbers of \<open>x\<close>; a NaN cell stays NaN; where the
  deviation is 0 (a constant or one-element input) or there is no number at all,
  every score is NaN.

  The library computes the score in \<^verbatim>\<open>float64\<close>, and its arithmetic is not part of the
  program. What it returns for the cell \<open>x\<close> of a group with the numbers \<open>vs\<close> is the
  exact score up to a rounding error \<open>err vs x\<close>; the function \<open>err\<close> is a parameter, and
  \<open>no_rounding\<close> is the arithmetic that commits none.\<close>

type_synonym rounding = "real list \<Rightarrow> real \<Rightarrow> real"

definition no_rounding :: rounding where
  "no_rounding vs x = 0"

definition stats_zscore :: "rounding \<Rightarrow> real option list \<Rightarrow> real option list" where
  "stats_zscore err a = (let vs = dropna a in
     if vs = [] \<or> std 0 vs = 0 then map (\<lambda>_. None) a
     else map (map_option (\<lambda>x. (x - mean vs) / std 0 vs + err vs x)) a)"

subsection \<open>Series.quantile\<close>

text \<open>Linear interpolation (the default): NaN cells are skipped, the position is
  \<open>p * (n - 1)\<close> in the sorted numbers, and the result interpolates between the two
  neighbours of the position. With no number the result is NaN.\<close>

definition quantile :: "real \<Rightarrow> real option list \<Rightarrow> real option" where
  "quantile p a = (let s = sort (dropna a); n = length s in
     if n = 0 then None
     else let pos = p * real (n - 1);
              lo = nat \<lfloor>pos\<rfloor>;
              hi = min (lo + 1) (n - 1)
          in Some (s ! lo + (pos - real lo) * (s ! hi - s ! lo)))"

subsection \<open>groupby([unidade, material])[qtd].transform\<close>

definition key_of :: "'a movement_core_scheme \<Rightarrow> string \<times> string" where
  "key_of r = (unidade r, material r)"

text \<open>The positions of the rows in the group of row \<open>i\<close>, in row order, and the
  \<^verbatim>\<open>qtd\<close> cells of the group.\<close>

definition group_index :: "'a movement_core_scheme list \<Rightarrow> nat \<Rightarrow> nat list" where
  "group_index df i = filter (\<lambda>j. key_of (df ! j) = key_of (df ! i)) [0..<length df]"

definition group_qtd :: "'a movement_core_scheme list \<Rightarrow> nat \<Rightarrow> real option list" where
  "group_qtd df i = map (\<lambda>j. qtd (df ! j)) (group_index df i)"

text \<open>\<open>transform\<close> with a function that returns one value per member of the group: row
  \<open>i\<close> receives the value at its own place in its group.\<close>

definition transform_series ::
  "(real option list \<Rightarrow> 'b list) \<Rightarrow> 'a movement_core_scheme list \<Rightarrow> 'b list" where
  "transform_series f df =
     map (\<lambda>i. f (group_qtd df i) ! length (filter (\<lambda>j. j < i) (group_index df i)))
       [0..<length df]"

text \<open>\<open>transform\<close> with a function that returns a scalar: it is broadcast to every row
  of the group.\<close>

definition transform_scalar ::
  "(real option list \<Rightarrow> 'b) \<Rightarrow> 'a movement_core_scheme list \<Rightarrow> 'b list" where
  "transform_scalar f df = map (\<lambda>i. f (group_qtd df i)) [0..<length df]"

section \<open>The detectors\<close>

definition calc_zscore_flags ::
  "rounding \<Rightarrow> 'a movement_core_scheme list \<Rightarrow> real \<Rightarrow> bool list" where
  "calc_zscore_flags err df z_thresh =
     (let zscores = transform_series (stats_zscore err) df
      in map (\<lambda>z. fgt_thresh (fabs z) z_thresh) zscores)"

definition calc_iqr_flags :: "'a movement_core_scheme list \<Rightarrow> real \<Rightarrow> bool list" where
  "calc_iqr_flags df k =
     (let q1 = transform_scalar (quantile (1 / 4)) df;
          q3 = transform_scalar (quantile (3 / 4)) df;
          iqr = map2 fsub q3 q1;
          lower = map2 fsub q1 (map (fscale k) iqr);
          upper = map2 fadd q3 (map (fscale k) iqr)
      in map2 (\<lambda>q (lo, up). flt q lo \<or> flt up q) (map qtd df) (zip lower upper))"

section \<open>The alert panel\<close>

text \<open>
  A line of the returned frame is an alert entry. There is one more kind of line.
  When the frame has rows but none is retained, \<^verbatim>\<open>anomalies\<close> is a frame without rows,
  and pandas lets a frame with an empty index take over the index of a non-empty
  series that is assigned to it as a column (\<^verbatim>\<open>DataFrame._ensure_valid_index\<close>): the
  assignment of the score column then gives \<^verbatim>\<open>anomalies\<close> one line for every row of
  the input, with NaN in every cell but the score. \<open>Blank i z\<close> is such a line, with
  label \<open>i\<close> and score \<open>z\<close>; its impact, computed from NaN cells, is NaN.
\<close>

datatype panel_line = Entry alert_entry | Blank nat "real option"

fun line_label :: "panel_line \<Rightarrow> nat" where
  "line_label (Entry e) = row_label e"
| "line_label (Blank i z) = i"

fun line_impacto :: "panel_line \<Rightarrow> real option" where
  "line_impacto (Entry e) = impacto e"
| "line_impacto (Blank i z) = None"

text \<open>\<^verbatim>\<open>any(axis=1)\<close> over a list of boolean columns of \<open>n\<close> rows: row by row, whether
  some column holds True there.\<close>

definition any_axis1 :: "bool list list \<Rightarrow> nat \<Rightarrow> bool list" where
  "any_axis1 cols n = map (\<lambda>i. list_ex (\<lambda>c. c ! i) cols) [0..<n]"

definition fmul :: "real option \<Rightarrow> real \<Rightarrow> real option" where
  "fmul c k = map_option (\<lambda>x. x * k) c"

text \<open>
  \<^verbatim>\<open>sort_values("impacto_R$", ascending=False)\<close> returns the lines in descending order
  of the key, NaN keys last. It is called with pandas' default \<^verbatim>\<open>kind="quicksort"\<close>,
  which is not stable: how lines of equal key come out is the business of numpy's
  sorting kernel, picked at run time and not part of the program. The model lets the
  kernel arrange the lines in some way of its own, the parameter \<open>arrange\<close>, and then
  puts them in descending order of the key, leaving lines of equal key as the
  kernel arranged them. In the order of \<^typ>\<open>real option\<close>, \<open>None\<close> is least, so NaN
  keys come last. \<open>keep_order\<close> is the arrangement of a stable sort; \<open>rearranges\<close> says
  that an arrangement returns the lines it was given.
\<close>

definition sort_values_desc ::
  "(panel_line list \<Rightarrow> panel_line list) \<Rightarrow> panel_line list \<Rightarrow> panel_line list" where
  "sort_values_desc arrange xs = rev (sort_key line_impacto (rev (arrange xs)))"

definition keep_order :: "panel_line list \<Rightarrow> panel_line list" where
  "keep_order xs = xs"

definition rearranges :: "(panel_line list \<Rightarrow> panel_line list) \<Rightarrow> bool" where
  "rearranges arrange \<longleftrightarrow> (\<forall>xs. mset (arrange xs) = mset xs)"

definition flag_any :: "rounding \<Rightarrow> movement list \<Rightarrow> bool list" where
  "flag_any err df =
     any_axis1 [calc_zscore_flags err df 3, calc_iqr_flags df (3 / 2)] (length df)"

text \<open>The entry made from row \<open>i\<close> of the frame: the explicit score is the transform
  over the whole frame, rounded, read at the row's label; the impact is computed
  from the retained row.\<close>

definition panel_row :: "rounding \<Rightarrow> movement list \<Rightarrow> nat \<Rightarrow> alert_entry" where
  "panel_row err df i =
     \<lparr>data = data (df ! i), unidade = unidade (df ! i), material = material (df ! i),
      tipo = tipo (df ! i), qtd = qtd (df ! i),
      row_label = i,
      zscore = map fround2 (transform_series (stats_zscore err) df) ! i,
      flag_zscore = calc_zscore_flags err df 3 ! i,
      flag_iqr = calc_iqr_flags df (3 / 2) ! i,
      impacto = fround2 (fmul (fabs (qtd (df ! i))) (custo_unit (df ! i)))\<rparr>"

text \<open>The lines of the panel, from the rows of the frame.\<close>

definition build_alert_panel ::
  "rounding \<Rightarrow> (panel_line list \<Rightarrow> panel_line list) \<Rightarrow> movement list
     \<Rightarrow> panel_line list" where
  "build_alert_panel err arrange df =
     (let anomalies = filter (\<lambda>i. flag_any err df ! i) [0..<length df];
          zscore_col = map fround2 (transform_series (stats_zscore err) df)
      in if anomalies = [] \<and> df \<noteq> []
         then sort_values_desc arrange (map (\<lambda>i. Blank i (zscore_col ! i)) [0..<length df])
         else sort_values_desc arrange (map (\<lambda>i. Entry (panel_row err df i)) anomalies))"

section \<open>Aggregate impact\<close>

text \<open>
  The frame that \<open>estimate_financial_impact\<close> receives is a panel: its lines, and the
  dtype of its impact column. The column is \<^verbatim>\<open>float64\<close> when the frame the panel was
  built from has numeric columns. It is of dtype \<^verbatim>\<open>object\<close>, and empty, when that frame
  was built from no rows at all.

  \<^verbatim>\<open>sum()\<close> of a \<^verbatim>\<open>float64\<close> column skips NaN cells, is 0.0 on an empty column, and is a
  numpy number, which has a \<^verbatim>\<open>round\<close> method. \<^verbatim>\<open>sum()\<close> of an empty column of dtype
  \<^verbatim>\<open>object\<close> is the Python integer 0, which has none: \<^verbatim>\<open>.round(2)\<close> raises
  \<^verbatim>\<open>AttributeError\<close>.
\<close>

datatype failure = Dangling | KeyError | AttributeError

datatype panel = Numeric_panel "panel_line list" | Empty_object_panel

fun panel_lines :: "panel \<Rightarrow> panel_line list" where
  "panel_lines (Numeric_panel anomalies) = anomalies"
| "panel_lines Empty_object_panel = []"

fun estimate_financial_impact :: "panel \<Rightarrow> failure + real" where
  "estimate_financial_impact (Numeric_panel anomalies) =
     Inr (round2 (sum_list (dropna (map line_impacto anomalies))))"
| "estimate_financial_impact Empty_object_panel = Inl AttributeError"

section \<open>Frames as objects\<close>

text \<open>
  In the source a frame is a mutable object and \<open>build_alert_panel\<close> receives a reference
  to it. To say what a call does to the frame of its caller, the frames live in a
  store, a reference is a position in the store, \<^verbatim>\<open>copy()\<close> allocates a new object
  and a column assignment \<^verbatim>\<open>df[name] = ...\<close> updates the object at the reference in
  place. The stored frames are the input and its copy: rows and the three flag
  columns, each present or not, and \<open>object_typed\<close>, which says of a frame without
  rows that its columns are of dtype \<^verbatim>\<open>object\<close> (it has no meaning for a frame that has
  rows). The frame \<^verbatim>\<open>anomalies\<close> is made by boolean indexing, which always builds a new
  object that no one else holds, so it is kept as a value. Reading a column that is
  absent raises \<^verbatim>\<open>KeyError\<close>; \<open>Dangling\<close> is the outcome for a reference that names no
  object of the store, which no run of the source produces.
\<close>

record dataframe =
  object_typed :: bool
  rows :: "movement list"
  col_flag_zscore :: "bool list option"
  col_flag_iqr :: "bool list option"
  col_flag_any :: "bool list option"

type_synonym store = "dataframe list"

definition copy_obj :: "nat \<Rightarrow> store \<Rightarrow> nat \<times> store" where
  "copy_obj r s = (length s, s @ [s ! r])"

definition setitem :: "nat \<Rightarrow> (dataframe \<Rightarrow> dataframe) \<Rightarrow> store \<Rightarrow> store" where
  "setitem r f s = s[r := f (s ! r)]"

definition build_alert_panel_obj ::
  "rounding \<Rightarrow> (panel_line list \<Rightarrow> panel_line list) \<Rightarrow> nat \<Rightarrow> store
     \<Rightarrow> (failure + panel) \<times> store" where
  "build_alert_panel_obj err arrange arg s0 =
     (if length s0 \<le> arg then (Inl Dangling, s0)
      else
        let (df, s1) = copy_obj arg s0;
            s2 = setitem df
                   (\<lambda>d. d\<lparr>col_flag_zscore := Some (calc_zscore_flags err (rows d) 3)\<rparr>) s1;
            s3 = setitem df
                   (\<lambda>d. d\<lparr>col_flag_iqr := Some (calc_iqr_flags (rows d) (3 / 2))\<rparr>) s2
        in case (col_flag_zscore (s3 ! df), col_flag_iqr (s3 ! df)) of
             (Some fz, Some fi) \<Rightarrow>
               let s4 = setitem df
                          (\<lambda>d. d\<lparr>col_flag_any :=
                                     Some (any_axis1 [fz, fi] (length (rows d)))\<rparr>) s3
               in (case col_flag_any (s4 ! df) of
                     Some fa \<Rightarrow>
                       let d = rows (s4 ! df);
                           anomalies = filter (\<lambda>i. fa ! i) [0..<length d];
                           zscore_col = map fround2 (transform_series (stats_zscore err) d);
                           entry = (\<lambda>i.
                             \<lparr>data = data (d ! i), unidade = unidade (d ! i),
                              material = material (d ! i), tipo = tipo (d ! i),
                              qtd = qtd (d ! i), row_label = i, zscore = zscore_col ! i,
                              flag_zscore = fz ! i, flag_iqr = fi ! i,
                              impacto = fround2 (fmul (fabs (qtd (d ! i)))
                                                   (custo_unit (d ! i)))\<rparr>)
                       in if d = [] \<and> object_typed (s4 ! df)
                          then (Inr Empty_object_panel, s4)
                          else if anomalies = [] \<and> d \<noteq> []
                          then (Inr (Numeric_panel (sort_values_desc arrange
                                  (map (\<lambda>i. Blank i (zscore_col ! i)) [0..<length d]))), s4)
                          else (Inr (Numeric_panel (sort_values_desc arrange
                                  (map (\<lambda>i. Entry (entry i)) anomalies))), s4)
                   | None \<Rightarrow> (Inl KeyError, s4))
           | _ \<Rightarrow> (Inl KeyError, s3))"

text \<open>The run of the script: the panel of the registered movements, then its
  aggregate impact. A failure of either call ends the run.\<close>

definition run_pipeline ::
  "rounding \<Rightarrow> (panel_line list \<Rightarrow> panel_line list) \<Rightarrow> nat \<Rightarrow> store
     \<Rightarrow> (failure + panel \<times> real) \<times> store" where
  "run_pipeline err arrange df_registros s =
     (case build_alert_panel_obj err arrange df_registros s of
        (Inl e, s') \<Rightarrow> (Inl e, s')
      | (Inr painel, s') \<Rightarrow>
          (case estimate_financial_impact painel of
             Inl e \<Rightarrow> (Inl e, s')
           | Inr impacto_total \<Rightarrow> (Inr (painel, impacto_total), s')))"

section \<open>Auxiliary notions for the statements\<close>

text \<open>The numbers of the group of row \<open>i\<close>: the \<^verbatim>\<open>qtd\<close> cells of the rows with the same
  (unidade, material), NaN left out.\<close>

definition group_values :: "'a movement_core_scheme list \<Rightarrow> nat \<Rightarrow> real list" where
  "group_values df i = dropna (group_qtd df i)"

text \<open>Whether some row of the frame is flagged by a detector.\<close>

definition some_flagged :: "rounding \<Rightarrow> movement list \<Rightarrow> bool" where
  "some_flagged err df = list_ex (\<lambda>b. b) (flag_any err df)"

text \<open>The Z-score flag as the specification words it: the score of a record is its
  deviation from the group mean in units of the sample standard deviation (divisor
  \<open>n - 1\<close>), for groups of at least two values.\<close>

definition zscore_flag_spec :: "movement list \<Rightarrow> real \<Rightarrow> nat \<Rightarrow> bool" where
  "zscore_flag_spec df t i =
     (let vs = group_values df i; \<mu> = mean vs; \<sigma> = std 1 vs in
      case qtd (df ! i) of None \<Rightarrow> False
      | Some q \<Rightarrow> 2 \<le> length vs \<and> \<sigma> \<noteq> 0 \<and> t < \<bar>(q - \<mu>) / \<sigma>\<bar>)"

text \<open>A percentile as the specification words it: for percentile \<open>pct\<close> of \<open>n\<close> values,
  the position is \<open>pct / 100 * (n - 1)\<close> in the ranked values, and the result
  interpolates linearly between the two ranked values nearest to the position.\<close>

definition percentile_spec :: "real \<Rightarrow> real list \<Rightarrow> real option" where
  "percentile_spec pct vs =
     (if vs = [] then None
      else let ranked = sort vs;
               position = pct / 100 * real (length vs - 1);
               below = nat \<lfloor>position\<rfloor>;
               above = nat \<lceil>position\<rceil>;
               w = position - of_int \<lfloor>position\<rfloor>
           in Some ((1 - w) * ranked ! below + w * ranked ! above))"

section \<open>Example frames\<close>

definition mov :: "string \<Rightarrow> string \<Rightarrow> real option \<Rightarrow> real \<Rightarrow> movement" where
  "mov u m q c = \<lparr>data = 0, unidade = u, material = m, tipo = ''saida'', qtd = q,
     custo_unit = c, valor_movto = (case q of None \<Rightarrow> 0 | Some x \<Rightarrow> x * c)\<rparr>"

text \<open>One group of eleven movements, the last one far from the others.\<close>

definition df_outlier :: "movement list" where
  "df_outlier =
     map (\<lambda>q. mov ''U01'' ''MAT-001'' (Some q) 10) [-1, 1, -1, 1, -1, 1, -1, 1, -1, 1, 20]"

text \<open>One group of three equal movements.\<close>

definition df_constant :: "movement list" where
  "df_constant = map (\<lambda>q. mov ''U01'' ''MAT-001'' (Some q) 10) [7, 7, 7]"

text \<open>One group of five movements, four at rest and one spike.\<close>

definition df_spike :: "movement list" where
  "df_spike = map (\<lambda>q. mov ''U01'' ''MAT-001'' (Some q) 10) [0, 0, 0, 0, 5]"

text \<open>One group of five movements, the last two equally far from the others on
  either side.\<close>

definition df_ties :: "movement list" where
  "df_ties = map (\<lambda>q. mov ''U01'' ''MAT-001'' (Some q) 10) [0, 0, 0, 1, - 1]"

text \<open>One group of five movements, the last two out of the ordinary, the later one
  the costlier.\<close>

definition df_order :: "movement list" where
  "df_order = map (\<lambda>q. mov ''U01'' ''MAT-001'' (Some q) 10) [0, 0, 0, 1, - 2]"

text \<open>One group of ten movements whose last one scores exactly 3.\<close>

definition df_edge :: "movement list" where
  "df_edge = map (\<lambda>q. mov ''U01'' ''MAT-001'' (Some q) 10) [0, 0, 0, 0, 0, 0, 0, 0, 0, 7]"

text \<open>The spike group with a sixth movement whose quantity is missing.\<close>

definition df_missing :: "movement list" where
  "df_missing = df_spike @ [mov ''U01'' ''MAT-001'' None 10]"

text \<open>One group of two movements, neither of them out of the ordinary.\<close>

definition df_pair :: "movement list" where
  "df_pair = map (\<lambda>q. mov ''U01'' ''MAT-001'' (Some q) 10) [1, 3]"

text \<open>Three groups in one frame, their rows interleaved: the eleven movements of
  \<open>df_outlier\<close> in (U01, MAT-001), one movement of another unit and one of another
  material.\<close>

definition df_mixed :: "movement list" where
  "df_mixed =
     map (\<lambda>q. mov ''U01'' ''MAT-001'' (Some q) 10) [-1, 1, -1, 1, -1]
     @ [mov ''U02'' ''MAT-001'' (Some 1000) 10]
     @ map (\<lambda>q. mov ''U01'' ''MAT-001'' (Some q) 10) [1, -1, 1, -1, 1]
     @ [mov ''U01'' ''MAT-002'' (Some (- 1000)) 20]
     @ [mov ''U01'' ''MAT-001'' (Some 20) 10]"

text \<open>Three groups in one frame, their rows interleaved: the spike group in
  (U01, MAT-001), three equal movements of another unit, and one movement of another
  material.\<close>

definition df_two :: "movement list" where
  "df_two =
     [mov ''U01'' ''MAT-001'' (Some 0) 10, mov ''U02'' ''MAT-001'' (Some 5) 10,
      mov ''U01'' ''MAT-001'' (Some 0) 10, mov ''U02'' ''MAT-001'' (Some 5) 10,
      mov ''U01'' ''MAT-001'' (Some 0) 10, mov ''U01'' ''MAT-002'' (Some 100) 20,
      mov ''U01'' ''MAT-001'' (Some 0) 10, mov ''U02'' ''MAT-001'' (Some 5) 10,
      mov ''U01'' ''MAT-001'' (Some 5) 10]"

text \<open>Stores holding one frame: the spike group; a frame without rows whose columns
  are numeric; and the frame built from no rows, as the generator of the source
  returns it for zero days.\<close>

definition store_spike :: store where
  "store_spike = [\<lparr>object_typed = False, rows = df_spike, col_flag_zscore = None,
                    col_flag_iqr = None, col_flag_any = None\<rparr>]"

definition store_empty_numeric :: store where
  "store_empty_numeric = [\<lparr>object_typed = False, rows = [], col_flag_zscore = None,
                            col_flag_iqr = None, col_flag_any = None\<rparr>]"

definition store_empty_object :: store where
  "store_empty_object = [\<lparr>object_typed = True, rows = [], col_flag_zscore = None,
                           col_flag_iqr = None, col_flag_any = None\<rparr>]"

section \<open>Properties\<close>

subsection \<open>Lengths\<close>

lemma length_transform_series [simp]: "length (transform_series f df) = length df"
  by (simp add: transform_series_def)

lemma length_transform_scalar [simp]: "length (transform_scalar f df) = length df"
  by (simp add: transform_scalar_def)

lemma length_calc_zscore_flags [simp]: "length (calc_zscore_flags err df t) = length df"
  by (simp add: calc_zscore_flags_def)

lemma length_calc_iqr_flags [simp]: "length (calc_iqr_flags df k) = length df"
  by (simp add: calc_iqr_flags_def Let_def)

lemma length_flag_any [simp]: "length (flag_any err df) = length df"
  by (simp add: flag_any_def any_axis1_def)

lemma length_stats_zscore [simp]: "length (stats_zscore err a) = length a"
  by (simp add: stats_zscore_def Let_def)

subsection \<open>A row and its group\<close>

text \<open>In a strictly ascending list, an element sits at the place counted by the
  elements below it. The index list of a group is such a list, so \<open>transform\<close> hands
  each row the result computed for its own cell.\<close>

lemma place_in_ascending:
  "sorted_wrt (<) xs \<Longrightarrow> i \<in> set xs \<Longrightarrow>
     length (filter (\<lambda>j. j < i) xs) < length xs \<and>
     xs ! length (filter (\<lambda>j. j < i) xs) = (i::nat)"
proof (induction xs)
  case Nil
  then show ?case by simp
next
  case (Cons x xs)
  show ?case
  proof (cases "x = i")
    case True
    from Cons.prems(1) have "\<forall>y\<in>set xs. i < y" using True by simp
    then have "filter (\<lambda>j. j < i) xs = []" by (auto simp: filter_empty_conv)
    with True show ?thesis by simp
  next
    case False
    with Cons.prems have "i \<in> set xs" "x < i" "sorted_wrt (<) xs" by auto
    with Cons.IH show ?thesis by simp
  qed
qed

lemma sorted_wrt_group_index: "sorted_wrt (<) (group_index df i)"
  unfolding group_index_def by (rule sorted_wrt_filter) simp

lemma mem_group_index: "i < length df \<Longrightarrow> i \<in> set (group_index df i)"
  by (simp add: group_index_def)

lemma place_in_group:
  assumes "i < length df"
  shows "length (filter (\<lambda>j. j < i) (group_index df i)) < length (group_index df i)"
    and "group_index df i ! length (filter (\<lambda>j. j < i) (group_index df i)) = i"
  using place_in_ascending [OF sorted_wrt_group_index mem_group_index [OF assms]] by auto

lemma group_qtd_place:
  assumes "i < length df"
  shows "length (filter (\<lambda>j. j < i) (group_index df i)) < length (group_qtd df i)"
    and "group_qtd df i ! length (filter (\<lambda>j. j < i) (group_index df i)) = qtd (df ! i)"
  using place_in_group [OF assms] by (simp_all add: group_qtd_def)

lemma group_qtd_filter:
  "group_qtd df i = map qtd (filter (\<lambda>r. key_of r = key_of (df ! i)) df)"
proof -
  have "filter (\<lambda>r. key_of r = key_of (df ! i)) df =
        filter (\<lambda>r. key_of r = key_of (df ! i)) (map (nth df) [0..<length df])"
    by (simp add: map_nth)
  also have "\<dots> = map (nth df) (group_index df i)"
    by (simp add: filter_map group_index_def comp_def)
  finally show ?thesis by (simp add: group_qtd_def comp_def)
qed

text \<open>The group of a row, spelled out: the rows of the same unit and the same
  material.\<close>

lemma group_values_explicit:
  "group_values df i =
     dropna (map qtd (filter (\<lambda>r. unidade r = unidade (df ! i) \<and> material r = material (df ! i))
                        df))"
  by (simp add: group_values_def group_qtd_filter key_of_def)

lemma set_dropna: "set (dropna a) = {v. Some v \<in> set a}"
  by (induction a rule: dropna.induct) auto

lemma own_value_in_group:
  assumes "i < length df" "qtd (df ! i) = Some q"
  shows "q \<in> set (group_values df i)"
proof -
  have "Some q \<in> set (group_qtd df i)"
    using group_qtd_place [OF assms(1)] assms(2) by (metis nth_mem)
  then show ?thesis by (simp add: group_values_def set_dropna)
qed

subsection \<open>Mean and deviation\<close>

lemma sum_sq_nonneg: "0 \<le> sum_list (map (\<lambda>v. (v - m)\<^sup>2) vs)" for m :: real
  by (rule sum_list_nonneg) auto

lemma variance_nonneg: "0 \<le> variance k vs"
  by (simp add: variance_def sum_sq_nonneg)

lemma std_eq_0_iff: "std k vs = 0 \<longleftrightarrow> variance k vs = 0"
  by (simp add: std_def)

lemma std_Nil [simp]: "std k [] = 0"
  by (simp add: std_def variance_def)

lemma sum_list_sq_eq_0_iff:
  "sum_list (map (\<lambda>v. (v - m)\<^sup>2) vs) = 0 \<longleftrightarrow> (\<forall>v\<in>set vs. v = (m::real))"
proof (induction vs)
  case Nil
  then show ?case by simp
next
  case (Cons a vs)
  have "0 \<le> sum_list (map (\<lambda>v. (v - m)\<^sup>2) vs)" by (rule sum_sq_nonneg)
  moreover have "0 \<le> (a - m)\<^sup>2" by simp
  ultimately have "(a - m)\<^sup>2 + sum_list (map (\<lambda>v. (v - m)\<^sup>2) vs) = 0 \<longleftrightarrow>
      (a - m)\<^sup>2 = 0 \<and> sum_list (map (\<lambda>v. (v - m)\<^sup>2) vs) = 0"
    by (simp add: add_nonneg_eq_0_iff)
  with Cons.IH show ?case by simp
qed

lemma mean_const:
  assumes "vs \<noteq> []" and "\<forall>v\<in>set vs. v = c"
  shows "mean vs = c"
proof -
  have "vs = replicate (length vs) c"
    using assms(2) by (simp add: replicate_length_same)
  then have "sum_list vs = real (length vs) * c"
    by (metis sum_list_replicate)
  with assms(1) show ?thesis by (simp add: mean_def)
qed

lemma variance_const:
  assumes "\<forall>v\<in>set vs. v = c"
  shows "variance k vs = 0"
proof (cases "vs = []")
  case True
  then show ?thesis by (simp add: variance_def)
next
  case False
  then have "mean vs = c" using assms by (rule mean_const)
  with assms have "sum_list (map (\<lambda>v. (v - mean vs)\<^sup>2) vs) = 0"
    by (simp add: sum_list_sq_eq_0_iff)
  then show ?thesis by (simp add: variance_def)
qed

lemma short_list_const: "length vs < 2 \<Longrightarrow> \<exists>c. \<forall>v\<in>set vs. v = c"
  by (cases vs) (auto simp: less_Suc_eq_0_disj numeral_2_eq_2)

text \<open>Comparing a score with a threshold without taking the root.\<close>

lemma abs_div_sqrt_gt_iff:
  assumes "0 < v" "0 \<le> t"
  shows "t < \<bar>d / sqrt v\<bar> \<longleftrightarrow> t\<^sup>2 * v < d\<^sup>2"
proof -
  have s: "0 < sqrt v" using assms(1) by simp
  have "t < \<bar>d / sqrt v\<bar> \<longleftrightarrow> t * sqrt v < \<bar>d\<bar>"
    using s by (simp add: pos_less_divide_eq)
  also have "\<dots> \<longleftrightarrow> \<not> \<bar>d\<bar> \<le> \<bar>t * sqrt v\<bar>"
    using s assms(2) by (simp add: abs_mult not_le)
  also have "\<dots> \<longleftrightarrow> (t * sqrt v)\<^sup>2 < d\<^sup>2"
    by (simp only: abs_le_square_iff not_le)
  finally show ?thesis using assms(1) by (simp add: power_mult_distrib)
qed

subsection \<open>The Z-score signal\<close>

lemma stats_zscore_nth:
  "p < length a \<Longrightarrow> stats_zscore err a ! p =
     (if std 0 (dropna a) = 0 then None
      else map_option (\<lambda>x. (x - mean (dropna a)) / std 0 (dropna a) + err (dropna a) x)
             (a ! p))"
  by (auto simp add: stats_zscore_def Let_def)

lemma transform_zscore_nth:
  assumes "i < length df"
  shows "transform_series (stats_zscore err) df ! i =
     (if std 0 (group_values df i) = 0 then None
      else map_option (\<lambda>x. (x - mean (group_values df i)) / std 0 (group_values df i)
                            + err (group_values df i) x)
             (qtd (df ! i)))"
  using assms group_qtd_place [OF assms]
  by (simp add: transform_series_def stats_zscore_nth group_values_def)

lemma calc_zscore_flags_nth:
  assumes "i < length df"
  shows "calc_zscore_flags err df t ! i =
     (\<exists>q. qtd (df ! i) = Some q \<and> std 0 (group_values df i) \<noteq> 0 \<and>
           t < \<bar>(q - mean (group_values df i)) / std 0 (group_values df i)
                 + err (group_values df i) q\<bar>)"
  using assms
  by (cases "qtd (df ! i)") (simp_all add: calc_zscore_flags_def transform_zscore_nth)

text \<open>Without rounding error the test can be made on squares, for a threshold that
  is not negative: it needs no root, so it can be evaluated on a concrete frame.\<close>

lemma calc_zscore_flags_squares:
  assumes "i < length df" "0 \<le> t"
  shows "calc_zscore_flags no_rounding df t ! i =
     (case qtd (df ! i) of None \<Rightarrow> False
      | Some q \<Rightarrow> variance 0 (group_values df i) \<noteq> 0 \<and>
          t\<^sup>2 * variance 0 (group_values df i) < (q - mean (group_values df i))\<^sup>2)"
proof (cases "variance 0 (group_values df i) = 0")
  case True
  then show ?thesis using assms(1)
    by (simp add: calc_zscore_flags_nth std_eq_0_iff split: option.splits)
next
  case False
  then have pos: "0 < variance 0 (group_values df i)"
    using variance_nonneg [of 0 "group_values df i"] by simp
  show ?thesis using False assms(1) abs_div_sqrt_gt_iff [OF pos assms(2)]
    by (simp add: calc_zscore_flags_nth std_eq_0_iff std_def no_rounding_def
        split: option.splits)
qed

lemma zscore_flag_spec_squares:
  assumes "0 \<le> t"
  shows "zscore_flag_spec df t i =
     (case qtd (df ! i) of None \<Rightarrow> False
      | Some q \<Rightarrow> 2 \<le> length (group_values df i) \<and> variance 1 (group_values df i) \<noteq> 0 \<and>
          t\<^sup>2 * variance 1 (group_values df i) < (q - mean (group_values df i))\<^sup>2)"
proof (cases "variance 1 (group_values df i) = 0")
  case True
  then show ?thesis
    by (simp add: zscore_flag_spec_def Let_def std_eq_0_iff split: option.splits)
next
  case False
  then have pos: "0 < variance 1 (group_values df i)"
    using variance_nonneg [of 1 "group_values df i"] by simp
  show ?thesis using False abs_div_sqrt_gt_iff [OF pos assms]
    by (simp add: zscore_flag_spec_def Let_def std_eq_0_iff std_def split: option.splits)
qed

text \<open>A score that clears the threshold by more than the rounding error is flagged,
  and one that stays below it by the rounding error is not.\<close>

lemma flag_away_from_threshold:
  assumes "\<bar>e :: real\<bar> \<le> \<epsilon>"
  shows "(t + \<epsilon> < \<bar>s\<bar> \<longrightarrow> t < \<bar>s + e\<bar>) \<and> (\<bar>s\<bar> + \<epsilon> \<le> t \<longrightarrow> \<not> t < \<bar>s + e\<bar>)"
  using assms by linarith

lemma group_values_df_outlier:
  "group_values df_outlier 10 = [-1, 1, -1, 1, -1, 1, -1, 1, -1, 1, 20]"
  by (simp add: group_values_def group_qtd_filter key_of_def df_outlier_def mov_def)

lemma qtd_df_outlier: "qtd (df_outlier ! 10) = Some 20"
  by (simp add: df_outlier_def mov_def)

lemma group_values_df_constant: "group_values df_constant 2 = [7, 7, 7]"
  by (simp add: group_values_def group_qtd_filter key_of_def df_constant_def mov_def)

lemma length_df_mixed [simp]: "length df_mixed = 13"
  by (simp add: df_mixed_def)

lemma group_df_mixed:
  "dropna (map qtd (filter (\<lambda>r. unidade r = unidade (df_mixed ! 12)
                                \<and> material r = material (df_mixed ! 12)) df_mixed)) =
     [-1, 1, -1, 1, -1, 1, -1, 1, -1, 1, 20]"
  by (simp add: df_mixed_def mov_def nth_append)

lemma qtd_df_mixed: "qtd (df_mixed ! 12) = Some 20"
  by (simp add: df_mixed_def mov_def nth_append)

lemma score_df_outlier_above_3:
  "3 + 1 / 10 < \<bar>(20 - mean [-1, 1, -1, 1, -1, 1, -1, 1, -1, 1, 20])
                / std 0 [-1, 1, -1, 1, -1, 1, -1, 1, -1, 1, 20]\<bar>"
proof -
  have v: "variance 0 [-1, 1, -1, 1, -1, 1, -1, 1, -1, 1, 20] = 4110 / 121"
    by (simp add: variance_def mean_def power2_eq_square)
  have m: "mean [-1, 1, -1, 1, -1, 1, -1, 1, -1, 1, 20] = 20 / 11"
    by (simp add: mean_def)
  have "(3 + 1 / 10 :: real) < \<bar>(20 - 20 / 11) / sqrt (4110 / 121)\<bar>"
    by (subst abs_div_sqrt_gt_iff) (simp_all add: power2_eq_square)
  then show ?thesis by (simp only: std_def v m)
qed

text \<open>
  Claim C1, as the code has it. For every row \<open>i\<close> of the frame, let \<open>vs\<close> be the numbers
  of the rows with the unit and the material of row \<open>i\<close>, \<open>\<mu>\<close> their mean and \<open>\<sigma>\<close> their
  population standard deviation (divisor \<open>n\<close>, the default \<open>ddof = 0\<close> of
  \<^verbatim>\<open>stats.zscore\<close>). The score of the row is \<open>(qtd - \<mu>) / \<sigma>\<close> as the library computes it
  in \<^verbatim>\<open>float64\<close>, that is, up to the rounding error \<open>err vs qtd\<close>; it is NaN when \<open>\<sigma> = 0\<close> or
  the quantity is NaN. The flag is true exactly when the computed score is a number
  whose absolute value exceeds the threshold: it is true when the exact score
  clears the threshold by more than the rounding error, and false when it stays
  below the threshold by the rounding error. A group with fewer than two numbers
  has no score and no flag.
\<close>

theorem calc_zscore_flags_population_std:
  assumes "i < length df"
  shows "let vs = dropna (map qtd (filter (\<lambda>r. unidade r = unidade (df ! i)
                                             \<and> material r = material (df ! i)) df));
             \<mu> = mean vs; \<sigma> = std 0 vs
         in transform_series (stats_zscore err) df ! i =
              (if \<sigma> = 0 then None
               else map_option (\<lambda>q. (q - \<mu>) / \<sigma> + err vs q) (qtd (df ! i)))
          \<and> (calc_zscore_flags err df t ! i \<longleftrightarrow>
               (\<exists>q. qtd (df ! i) = Some q \<and> \<sigma> \<noteq> 0 \<and> t < \<bar>(q - \<mu>) / \<sigma> + err vs q\<bar>))
          \<and> (\<forall>q \<epsilon>. qtd (df ! i) = Some q \<and> \<sigma> \<noteq> 0 \<and> \<bar>err vs q\<bar> \<le> \<epsilon> \<longrightarrow>
                (t + \<epsilon> < \<bar>(q - \<mu>) / \<sigma>\<bar> \<longrightarrow> calc_zscore_flags err df t ! i)
              \<and> (\<bar>(q - \<mu>) / \<sigma>\<bar> + \<epsilon> \<le> t \<longrightarrow> \<not> calc_zscore_flags err df t ! i))
          \<and> (length vs < 2 \<longrightarrow>
                transform_series (stats_zscore err) df ! i = None
              \<and> \<not> calc_zscore_flags err df t ! i)"
proof -
  let ?vs = "group_values df i"
  have s: "std 0 ?vs = 0" if "length ?vs < 2"
    using short_list_const [OF that] variance_const [of ?vs]
    by (auto simp: std_eq_0_iff)
  have a: "transform_series (stats_zscore err) df ! i =
        (if std 0 ?vs = 0 then None
         else map_option (\<lambda>q. (q - mean ?vs) / std 0 ?vs + err ?vs q) (qtd (df ! i)))"
    by (rule transform_zscore_nth [OF assms])
  have b: "calc_zscore_flags err df t ! i \<longleftrightarrow>
        (\<exists>q. qtd (df ! i) = Some q \<and> std 0 ?vs \<noteq> 0
           \<and> t < \<bar>(q - mean ?vs) / std 0 ?vs + err ?vs q\<bar>)"
    by (rule calc_zscore_flags_nth [OF assms])
  have c: "\<forall>q \<epsilon>. qtd (df ! i) = Some q \<and> std 0 ?vs \<noteq> 0 \<and> \<bar>err ?vs q\<bar> \<le> \<epsilon> \<longrightarrow>
        (t + \<epsilon> < \<bar>(q - mean ?vs) / std 0 ?vs\<bar> \<longrightarrow> calc_zscore_flags err df t ! i)
      \<and> (\<bar>(q - mean ?vs) / std 0 ?vs\<bar> + \<epsilon> \<le> t \<longrightarrow> \<not> calc_zscore_flags err df t ! i)"
  proof (intro allI impI, elim conjE)
    fix q \<epsilon>
    assume q: "qtd (df ! i) = Some q" and n: "std 0 ?vs \<noteq> 0" and e: "\<bar>err ?vs q\<bar> \<le> \<epsilon>"
    have f: "calc_zscore_flags err df t ! i \<longleftrightarrow>
          t < \<bar>(q - mean ?vs) / std 0 ?vs + err ?vs q\<bar>"
      using q n by (simp add: b)
    show "(t + \<epsilon> < \<bar>(q - mean ?vs) / std 0 ?vs\<bar> \<longrightarrow> calc_zscore_flags err df t ! i)
      \<and> (\<bar>(q - mean ?vs) / std 0 ?vs\<bar> + \<epsilon> \<le> t \<longrightarrow> \<not> calc_zscore_flags err df t ! i)"
      unfolding f by (rule flag_away_from_threshold [OF e])
  qed
  have d: "length ?vs < 2 \<longrightarrow>
        transform_series (stats_zscore err) df ! i = None
      \<and> \<not> calc_zscore_flags err df t ! i"
    using s by (simp add: a b)
  from a b c d show ?thesis
    unfolding Let_def group_values_explicit [symmetric] by blast
qed

theorem calc_zscore_flags_population_std_witness:
  "12 < length df_mixed
   \<and> dropna (map qtd (filter (\<lambda>r. unidade r = unidade (df_mixed ! 12)
                                  \<and> material r = material (df_mixed ! 12)) df_mixed)) =
       [-1, 1, -1, 1, -1, 1, -1, 1, -1, 1, 20]
   \<and> qtd (df_mixed ! 12) = Some 20
   \<and> calc_zscore_flags no_rounding df_mixed 3 ! 12"
proof -
  let ?vs = "[-1, 1, -1, 1, -1, 1, -1, 1, -1, 1, 20] :: real list"
  have l: "12 < length df_mixed" by simp
  have n: "std 0 ?vs \<noteq> 0"
    using score_df_outlier_above_3 by auto
  have e: "\<bar>no_rounding ?vs 20\<bar> \<le> 1 / 10" by (simp add: no_rounding_def)
  have "calc_zscore_flags no_rounding df_mixed 3 ! 12"
    using calc_zscore_flags_population_std [OF l, of no_rounding 3]
      score_df_outlier_above_3 n e
    unfolding Let_def group_df_mixed qtd_df_mixed by blast
  then show ?thesis using l group_df_mixed qtd_df_mixed by blast
qed

text \<open>
  Claim C1 as stated fails: with the sample standard deviation (divisor \<open>n - 1\<close>) the
  last movement of \<open>df_outlier\<close> scores about 2.97 and would not be flagged at
  threshold 3; the code divides by \<open>n\<close>, scores it about 3.12 and flags it.
\<close>

theorem zscore_sample_std_counterexample:
  "calc_zscore_flags no_rounding df_outlier 3 ! 10 \<and> \<not> zscore_flag_spec df_outlier 3 10"
proof -
  have l: "10 < length df_outlier" by (simp add: df_outlier_def)
  have "calc_zscore_flags no_rounding df_outlier 3 ! 10"
    by (simp add: calc_zscore_flags_squares [OF l] qtd_df_outlier group_values_df_outlier
        variance_def mean_def power2_eq_square)
  moreover have "\<not> zscore_flag_spec df_outlier 3 10"
    by (simp add: zscore_flag_spec_squares qtd_df_outlier group_values_df_outlier
        variance_def mean_def power2_eq_square)
  ultimately show ?thesis by simp
qed

text \<open>The flag of that movement does not hang on the rounding: it is set under any
  rounding error up to a tenth.\<close>

lemma outlier_flagged_under_rounding:
  assumes "\<bar>err [-1, 1, -1, 1, -1, 1, -1, 1, -1, 1, 20] 20\<bar> \<le> 1 / 10"
  shows "calc_zscore_flags err df_outlier 3 ! 10"
proof -
  let ?vs = "[-1, 1, -1, 1, -1, 1, -1, 1, -1, 1, 20] :: real list"
  have l: "10 < length df_outlier" by (simp add: df_outlier_def)
  have n: "std 0 ?vs \<noteq> 0" using score_df_outlier_above_3 by auto
  have "3 < \<bar>(20 - mean ?vs) / std 0 ?vs + err ?vs 20\<bar>"
    using flag_away_from_threshold [OF assms, of 3 "(20 - mean ?vs) / std 0 ?vs"]
      score_df_outlier_above_3 by blast
  then show ?thesis
    using n by (simp add: calc_zscore_flags_nth [OF l] qtd_df_outlier group_values_df_outlier)
qed

text \<open>A score that sits on the threshold is decided by the rounding. The last
  movement of \<open>df_edge\<close> scores exactly 3: it is flagged at threshold 3 exactly when the
  computed score comes out above the exact one.\<close>

lemma edge_flag_decided_by_rounding:
  assumes "\<bar>err [0, 0, 0, 0, 0, 0, 0, 0, 0, 7] 7\<bar> \<le> 1"
  shows "calc_zscore_flags err df_edge 3 ! 9 \<longleftrightarrow> 0 < err [0, 0, 0, 0, 0, 0, 0, 0, 0, 7] 7"
proof -
  let ?vs = "[0, 0, 0, 0, 0, 0, 0, 0, 0, 7] :: real list"
  have l: "9 < length df_edge" by (simp add: df_edge_def)
  have g: "group_values df_edge 9 = ?vs"
    by (simp add: group_values_def group_qtd_filter key_of_def df_edge_def mov_def)
  have q: "qtd (df_edge ! 9) = Some 7" by (simp add: df_edge_def mov_def)
  have m: "mean ?vs = 7 / 10" by (simp add: mean_def)
  have "variance 0 ?vs = (21 / 10)\<^sup>2"
    by (simp add: variance_def mean_def power2_eq_square)
  then have s: "std 0 ?vs = 21 / 10"
    by (simp only: std_def) simp
  have "calc_zscore_flags err df_edge 3 ! 9 \<longleftrightarrow> 3 < \<bar>3 + err ?vs 7\<bar>"
    by (simp add: calc_zscore_flags_nth [OF l] g q m s)
  also have "\<dots> \<longleftrightarrow> 0 < err ?vs 7"
    using assms by linarith
  finally show ?thesis .
qed

text \<open>
  Claim C5. In a group whose numbers are all the same, the deviation is 0, the score
  of every row is NaN, and no row is flagged, whatever the threshold.
\<close>

theorem zscore_constant_group_never_flagged:
  assumes "i < length df" and "\<forall>v\<in>set (group_values df i). v = c"
  shows "std 0 (group_values df i) = 0
       \<and> transform_series (stats_zscore err) df ! i = None
       \<and> \<not> calc_zscore_flags err df t ! i"
  using assms(1) variance_const [OF assms(2)]
  by (simp add: transform_zscore_nth calc_zscore_flags_nth std_eq_0_iff)

theorem zscore_constant_group_never_flagged_witness:
  "2 < length df_constant \<and> group_values df_constant 2 = [7, 7, 7]
   \<and> std 0 (group_values df_constant 2) = 0
   \<and> transform_series (stats_zscore no_rounding) df_constant ! 2 = None
   \<and> \<not> calc_zscore_flags no_rounding df_constant (- 1) ! 2"
proof -
  have l: "2 < length df_constant" by (simp add: df_constant_def)
  have c: "\<forall>v\<in>set (group_values df_constant 2). v = 7"
    by (simp add: group_values_df_constant)
  show ?thesis
    using l zscore_constant_group_never_flagged [OF l c, of no_rounding "- 1"]
    by (simp add: group_values_df_constant)
qed

subsection \<open>The IQR signal\<close>

lemma length_dropna_le: "length (dropna a) \<le> length a"
  by (induction a rule: dropna.induct) auto

lemma quantile_percentile_spec:
  assumes "0 \<le> p" "p \<le> 1"
  shows "quantile p a = percentile_spec (100 * p) (dropna a)"
proof (cases "dropna a = []")
  case True
  then show ?thesis by (simp add: quantile_def percentile_spec_def)
next
  case False
  define s where "s = sort (dropna a)"
  define n where "n = length (dropna a)"
  define pos where "pos = p * real (n - 1)"
  have n: "0 < n" using False by (simp add: n_def)
  have ne: "sort (dropna a) \<noteq> []"
    using False by (metis length_sort length_0_conv)
  have pos0: "0 \<le> pos" using assms(1) by (simp add: pos_def)
  have posn: "pos \<le> real (n - 1)"
    using mult_right_mono [OF assms(2), of "real (n - 1)"] by (simp add: pos_def)
  have q: "quantile p a =
      Some (s ! nat \<lfloor>pos\<rfloor> + (pos - real (nat \<lfloor>pos\<rfloor>)) *
        (s ! min (nat \<lfloor>pos\<rfloor> + 1) (n - 1) - s ! nat \<lfloor>pos\<rfloor>))"
    using ne by (simp add: quantile_def Let_def s_def n_def pos_def)
  have sp: "percentile_spec (100 * p) (dropna a) =
      Some ((1 - (pos - of_int \<lfloor>pos\<rfloor>)) * s ! nat \<lfloor>pos\<rfloor> +
        (pos - of_int \<lfloor>pos\<rfloor>) * s ! nat \<lceil>pos\<rceil>)"
    using False by (simp add: percentile_spec_def Let_def s_def n_def pos_def)
  have fl: "real (nat \<lfloor>pos\<rfloor>) = of_int \<lfloor>pos\<rfloor>"
    using pos0 by simp
  show ?thesis
  proof (cases "pos = of_int \<lfloor>pos\<rfloor>")
    case True
    then have "pos - of_int \<lfloor>pos\<rfloor> = 0" by simp
    then show ?thesis by (simp add: q sp fl)
  next
    case False
    then have c: "\<lceil>pos\<rceil> = \<lfloor>pos\<rfloor> + 1" by (simp add: ceiling_altdef)
    have "\<lceil>pos\<rceil> \<le> int (n - 1)" using posn by (simp add: ceiling_le_iff)
    with c pos0 have "nat \<lfloor>pos\<rfloor> + 1 \<le> n - 1" by linarith
    then have m: "min (nat \<lfloor>pos\<rfloor> + 1) (n - 1) = nat \<lfloor>pos\<rfloor> + 1" by simp
    have a: "nat \<lceil>pos\<rceil> = nat \<lfloor>pos\<rfloor> + 1" using c pos0 by (simp add: nat_add_distrib)
    show ?thesis unfolding q sp m a fl by (simp add: algebra_simps)
  qed
qed

lemma calc_iqr_flags_nth:
  assumes "i < length df"
  shows "calc_iqr_flags df k ! i =
     (let q1 = quantile (1 / 4) (group_qtd df i);
          q3 = quantile (3 / 4) (group_qtd df i);
          iqr = fsub q3 q1
      in flt (qtd (df ! i)) (fsub q1 (fscale k iqr)) \<or>
         flt (fadd q3 (fscale k iqr)) (qtd (df ! i)))"
  using assms by (simp add: calc_iqr_flags_def transform_scalar_def Let_def)

text \<open>
  Claim C4. For every row \<open>i\<close>, let \<open>vs\<close> be the numbers of the rows with the unit and the
  material of row \<open>i\<close>, and \<open>Q1\<close> and \<open>Q3\<close> the 25th and 75th percentiles of \<open>vs\<close>, by linear
  interpolation between order statistics: the IQR flag of the row is true exactly
  when its quantity is a number below \<open>Q1 - k * (Q3 - Q1)\<close> or above
  \<open>Q3 + k * (Q3 - Q1)\<close>; \<open>k\<close> is 1.5 by default.
\<close>

theorem calc_iqr_flags_quartile_fences:
  assumes "i < length df"
  shows "let vs = dropna (map qtd (filter (\<lambda>r. unidade r = unidade (df ! i)
                                             \<and> material r = material (df ! i)) df))
         in calc_iqr_flags df k ! i \<longleftrightarrow>
              (\<exists>q Q1 Q3. qtd (df ! i) = Some q
                 \<and> percentile_spec 25 vs = Some Q1
                 \<and> percentile_spec 75 vs = Some Q3
                 \<and> (q < Q1 - k * (Q3 - Q1) \<or> Q3 + k * (Q3 - Q1) < q))"
proof -
  have q1: "quantile (1 / 4) (group_qtd df i) = percentile_spec 25 (group_values df i)"
    using quantile_percentile_spec [of "1 / 4" "group_qtd df i"]
    by (simp add: group_values_def)
  have q3: "quantile (3 / 4) (group_qtd df i) = percentile_spec 75 (group_values df i)"
    using quantile_percentile_spec [of "3 / 4" "group_qtd df i"]
    by (simp add: group_values_def)
  have "calc_iqr_flags df k ! i \<longleftrightarrow>
     (\<exists>q Q1 Q3. qtd (df ! i) = Some q
        \<and> percentile_spec 25 (group_values df i) = Some Q1
        \<and> percentile_spec 75 (group_values df i) = Some Q3
        \<and> (q < Q1 - k * (Q3 - Q1) \<or> Q3 + k * (Q3 - Q1) < q))"
    unfolding calc_iqr_flags_nth [OF assms] q1 q3 Let_def
    by (cases "qtd (df ! i)"; cases "percentile_spec 25 (group_values df i)";
        cases "percentile_spec 75 (group_values df i)") auto
  then show ?thesis
    unfolding Let_def group_values_explicit [symmetric] .
qed

lemma group_values_df_spike: "group_values df_spike 4 = [0, 0, 0, 0, 5]"
  by (simp add: group_values_def group_qtd_filter key_of_def df_spike_def mov_def)

lemma qtd_df_spike: "qtd (df_spike ! 4) = Some 5"
  by (simp add: df_spike_def mov_def)

lemma percentiles_df_spike:
  "percentile_spec 25 [0, 0, 0, 0, 5] = Some 0" "percentile_spec 75 [0, 0, 0, 0, 5] = Some 0"
  by (simp_all add: percentile_spec_def)

lemma length_df_two [simp]: "length df_two = 9"
  by (simp add: df_two_def)

lemma group_df_two_8:
  "dropna (map qtd (filter (\<lambda>r. unidade r = unidade (df_two ! 8)
                                \<and> material r = material (df_two ! 8)) df_two)) =
     [0, 0, 0, 0, 5]"
  by (simp add: df_two_def mov_def)

lemma group_df_two_5:
  "dropna (map qtd (filter (\<lambda>r. unidade r = unidade (df_two ! 5)
                                \<and> material r = material (df_two ! 5)) df_two)) = [100]"
  by (simp add: df_two_def mov_def)

lemma qtd_df_two: "qtd (df_two ! 8) = Some 5" "qtd (df_two ! 5) = Some 100"
  by (simp_all add: df_two_def mov_def)

lemma percentiles_df_two:
  "percentile_spec 25 [100] = Some 100" "percentile_spec 75 [100] = Some 100"
  "percentile_spec 25 (dropna (map qtd df_two)) = Some 0"
  "percentile_spec 75 (dropna (map qtd df_two)) = Some 5"
  by (simp_all add: percentile_spec_def df_two_def mov_def)

text \<open>On \<open>df_two\<close>, whose three groups are interleaved, the last row is flagged within
  its own group (quartiles 0 and 0) although its quantity lies inside the fences
  of the whole column (quartiles 0 and 5), and the row of the one-row group is not
  flagged although its quantity lies outside the fences of the whole column.\<close>

theorem calc_iqr_flags_quartile_fences_witness:
  "8 < length df_two
   \<and> dropna (map qtd (filter (\<lambda>r. unidade r = unidade (df_two ! 8)
                                  \<and> material r = material (df_two ! 8)) df_two)) =
       [0, 0, 0, 0, 5]
   \<and> dropna (map qtd (filter (\<lambda>r. unidade r = unidade (df_two ! 5)
                                  \<and> material r = material (df_two ! 5)) df_two)) = [100]
   \<and> percentile_spec 25 (dropna (map qtd df_two)) = Some 0
   \<and> percentile_spec 75 (dropna (map qtd df_two)) = Some 5
   \<and> calc_iqr_flags df_two (3 / 2) ! 8
   \<and> \<not> calc_iqr_flags df_two (3 / 2) ! 5"
proof -
  have l: "8 < length df_two" "5 < length df_two" by simp_all
  have "calc_iqr_flags df_two (3 / 2) ! 8"
    using calc_iqr_flags_quartile_fences [OF l(1), of "3 / 2"]
    unfolding Let_def group_df_two_8 by (simp add: qtd_df_two percentiles_df_spike)
  moreover have "\<not> calc_iqr_flags df_two (3 / 2) ! 5"
    using calc_iqr_flags_quartile_fences [OF l(2), of "3 / 2"]
    unfolding Let_def group_df_two_5 by (simp add: qtd_df_two percentiles_df_two)
  ultimately show ?thesis
    using l group_df_two_8 group_df_two_5 percentiles_df_two by blast
qed

subsection \<open>Sorting\<close>


lemma sorts_mset: "rearranges arrange \<Longrightarrow> mset (sort_values_desc arrange xs) = mset xs"
  by (simp add: rearranges_def sort_values_desc_def)


lemma sorts_length:
  "rearranges arrange \<Longrightarrow> length (sort_values_desc arrange xs) = length xs"
  by (metis sorts_mset size_mset)


lemma sorts_Nil: "rearranges arrange \<Longrightarrow> sort_values_desc arrange [] = []"
  using sorts_mset [of arrange "[]"] by simp

text \<open>Lines that all have the same key come out as the kernel arranged them.\<close>

lemma sort_values_desc_ties:
  assumes "\<forall>x\<in>set (arrange xs). line_impacto x = c"
  shows "sort_values_desc arrange xs = arrange xs"
proof -
  have "sort_key line_impacto ys = ys" if "\<forall>x\<in>set ys. line_impacto x = c" for ys
    using that by (induction ys) (auto simp: insort_is_Cons)
  from this [of "rev (arrange xs)"] assms show ?thesis
    by (simp add: sort_values_desc_def)
qed

subsection \<open>Which rows reach the panel\<close>

lemma flag_any_nth:
  "i < length df \<Longrightarrow>
     flag_any err df ! i = (calc_zscore_flags err df 3 ! i \<or> calc_iqr_flags df (3 / 2) ! i)"
  by (simp add: flag_any_def any_axis1_def)
lemma some_flagged_iff: "some_flagged err df \<longleftrightarrow> (\<exists>i<length df. flag_any err df ! i)"
proof -
  have "some_flagged err df \<longleftrightarrow> True \<in> set (flag_any err df)"
    unfolding some_flagged_def list_ex_iff by (metis (full_types))
  also have "\<dots> \<longleftrightarrow> (\<exists>i<length (flag_any err df). flag_any err df ! i = True)"
    by (simp only: in_set_conv_nth)
  finally show ?thesis by (simp only: length_flag_any eq_True)
qed

lemma anomalies_empty_iff:
  "filter (\<lambda>i. flag_any err df ! i) [0..<length df] = [] \<longleftrightarrow> \<not> some_flagged err df"
proof -
  have "filter (\<lambda>i. flag_any err df ! i) [0..<length df] = [] \<longleftrightarrow>
        (\<forall>i\<in>set [0..<length df]. \<not> flag_any err df ! i)"
    by (simp only: filter_empty_conv)
  also have "\<dots> \<longleftrightarrow> \<not> (\<exists>i<length df. flag_any err df ! i)"
    by auto
  finally show ?thesis by (simp only: some_flagged_iff)
qed
lemma panel_flagged:
  "some_flagged err df \<Longrightarrow>
     build_alert_panel err arrange df =
       sort_values_desc arrange (map (\<lambda>i. Entry (panel_row err df i)) (filter (\<lambda>i. flag_any err df ! i) [0..<length df]))"
  by (simp add: build_alert_panel_def Let_def anomalies_empty_iff)

lemma panel_unflagged:
  "\<not> some_flagged err df \<Longrightarrow>
     build_alert_panel err arrange df =
       sort_values_desc arrange (map (\<lambda>i. Blank i (map fround2 (transform_series (stats_zscore err) df) ! i))
              [0..<length df])"
  by (cases "df = []") (simp_all add: build_alert_panel_def Let_def anomalies_empty_iff)



lemma row_label_panel_row [simp]: "row_label (panel_row err df i) = i"
  by (simp add: panel_row_def)



text \<open>When no row of a frame is flagged, the panel has a line for every row.\<close>

lemma unflagged_frame_panel_labels:
  assumes "rearranges arrange" "\<not> some_flagged err df"
  shows "mset (map line_label (build_alert_panel err arrange df)) = mset [0..<length df]"
proof -
  have "image_mset line_label (mset (build_alert_panel err arrange df)) =
        image_mset line_label (mset (map (\<lambda>i. Blank i
          (map fround2 (transform_series (stats_zscore err) df) ! i)) [0..<length df]))"
    by (simp only: panel_unflagged [OF assms(2)] sorts_mset [OF assms(1)])
  also have "\<dots> = mset (map (\<lambda>i. line_label (Blank i
          (map fround2 (transform_series (stats_zscore err) df) ! i))) [0..<length df])"
    by (simp only: mset_map multiset.map_comp comp_def)
  also have "\<dots> = mset [0..<length df]"
    by (simp only: line_label.simps map_ident)
  finally show ?thesis by simp
qed

subsection \<open>Evaluating the example frames\<close>

lemma dropna_map_Some [simp]: "dropna (map Some qs) = qs"
  by (induction qs) auto

lemma single_group_values:
  assumes "i < length qs"
  shows "group_values (map (\<lambda>q. mov u m (Some q) c) qs) i = qs"
proof -
  let ?df = "map (\<lambda>q. mov u m (Some q) c) qs"
  have "filter (\<lambda>r. key_of r = key_of (?df ! i)) ?df = ?df"
    using assms by (simp add: key_of_def mov_def filter_map comp_def)
  then have "group_qtd ?df i = map qtd ?df"
    by (simp only: group_qtd_filter)
  then show ?thesis
    by (simp add: group_values_def mov_def comp_def)
qed

lemma calc_zscore_flags_squares_list:
  assumes "0 \<le> t"
  shows "calc_zscore_flags no_rounding df t =
     map (\<lambda>i. case qtd (df ! i) of None \<Rightarrow> False
        | Some q \<Rightarrow> variance 0 (group_values df i) \<noteq> 0 \<and>
            t\<^sup>2 * variance 0 (group_values df i) < (q - mean (group_values df i))\<^sup>2)
       [0..<length df]"
  by (rule nth_equalityI)
    (simp_all add: calc_zscore_flags_squares [OF _ assms] cong: option.case_cong)

lemma quantile_numbers:
  "quantile p (group_qtd df i) = quantile p (map Some (group_values df i))"
  by (simp add: quantile_def group_values_def)

lemma calc_iqr_flags_list:
  "calc_iqr_flags df k =
     map (\<lambda>i. let q1 = quantile (1 / 4) (map Some (group_values df i));
                 q3 = quantile (3 / 4) (map Some (group_values df i));
                 iqr = fsub q3 q1
             in flt (qtd (df ! i)) (fsub q1 (fscale k iqr)) \<or>
                flt (fadd q3 (fscale k iqr)) (qtd (df ! i)))
       [0..<length df]"
  by (rule nth_equalityI) (simp_all add: calc_iqr_flags_nth quantile_numbers)

lemma upt_0_5: "[0..<5] = [0, 1, 2, 3, 4]"
  by (simp add: upt_rec)

lemma length_df_spike [simp]: "length df_spike = 5"
  by (simp add: df_spike_def)

lemma group_values_df_spike_any: "i < 5 \<Longrightarrow> group_values df_spike i = [0, 0, 0, 0, 5]"
  unfolding df_spike_def by (rule single_group_values) simp

lemma qtd_df_spike_list: "map qtd df_spike = [Some 0, Some 0, Some 0, Some 0, Some 5]"
  by (simp add: df_spike_def mov_def)

lemma zflags_df_spike:
  "calc_zscore_flags no_rounding df_spike 3 = [False, False, False, False, False]"
proof -
  have q: "qtd (df_spike ! i) = map qtd df_spike ! i" if "i < 5" for i
    using that by simp
  show ?thesis
    by (simp add: calc_zscore_flags_squares_list group_values_df_spike_any q
        qtd_df_spike_list variance_def mean_def power2_eq_square upt_0_5)
qed

lemma iqrflags_df_spike: "calc_iqr_flags df_spike (3 / 2) = [False, False, False, False, True]"
proof -
  have q: "qtd (df_spike ! i) = map qtd df_spike ! i" if "i < 5" for i
    using that by simp
  show ?thesis
    by (simp add: calc_iqr_flags_list group_values_df_spike_any q
        qtd_df_spike_list quantile_def upt_0_5)
qed

lemma flag_any_df_spike: "flag_any no_rounding df_spike = [False, False, False, False, True]"
  by (simp add: flag_any_def any_axis1_def zflags_df_spike iqrflags_df_spike upt_0_5)

lemma upt_0_2: "[0..<2] = [0, 1]"
  by (simp add: upt_rec)

lemma length_df_pair [simp]: "length df_pair = 2"
  by (simp add: df_pair_def)

lemma group_values_df_pair: "i < 2 \<Longrightarrow> group_values df_pair i = [1, 3]"
  unfolding df_pair_def by (rule single_group_values) simp

lemma qtd_df_pair: "map qtd df_pair = [Some 1, Some 3]"
  by (simp add: df_pair_def mov_def)

lemma flag_any_df_pair: "flag_any no_rounding df_pair = [False, False]"
proof -
  have q: "qtd (df_pair ! i) = map qtd df_pair ! i" if "i < 2" for i
    using that by simp
  have z: "calc_zscore_flags no_rounding df_pair 3 = [False, False]"
    by (simp add: calc_zscore_flags_squares_list group_values_df_pair q qtd_df_pair
        variance_def mean_def power2_eq_square upt_0_2)
  have r: "calc_iqr_flags df_pair (3 / 2) = [False, False]"
    by (simp add: calc_iqr_flags_list group_values_df_pair q qtd_df_pair quantile_def upt_0_2)
  show ?thesis
    by (simp add: flag_any_def any_axis1_def z r upt_0_2)
qed

lemma std_df_pair: "std 0 [1, 3] = 1" "mean [1, 3] = 2"
  by (simp_all add: std_def variance_def mean_def)

lemma scores_df_pair:
  "transform_series (stats_zscore no_rounding) df_pair ! 0 = Some (- 1)"
  "transform_series (stats_zscore no_rounding) df_pair ! Suc 0 = Some 1"
proof -
  have q: "qtd (df_pair ! i) = map qtd df_pair ! i" if "i < 2" for i
    using that by simp
  show "transform_series (stats_zscore no_rounding) df_pair ! 0 = Some (- 1)"
    by (simp add: transform_zscore_nth group_values_df_pair std_df_pair q qtd_df_pair
        no_rounding_def)
  show "transform_series (stats_zscore no_rounding) df_pair ! Suc 0 = Some 1"
    by (simp add: transform_zscore_nth group_values_df_pair std_df_pair q qtd_df_pair
        no_rounding_def)
qed

subsection \<open>Rounding\<close>

lemma rint_nearest: "\<bar>of_int (rint x) - x\<bar> \<le> 1 / 2"
proof -
  have "of_int \<lfloor>x\<rfloor> \<le> x" "x < of_int \<lfloor>x\<rfloor> + 1" by linarith+
  then show ?thesis by (auto simp: rint_def Let_def)
qed

text \<open>\<open>round2\<close> yields a multiple of 0.01 no further than 0.005 from its argument.\<close>

lemma round2_nearest: "\<bar>round2 x - x\<bar> \<le> 1 / 200 \<and> (\<exists>n::int. round2 x = of_int n / 100)"
proof -
  have "\<bar>of_int (rint (x * 100)) - x * 100\<bar> \<le> 1 / 2" by (rule rint_nearest)
  then have "\<bar>round2 x - x\<bar> \<le> 1 / 200"
    by (simp add: round2_def abs_le_iff field_simps)
  then show ?thesis by (auto simp: round2_def)
qed

lemma rint_of_int [simp]: "rint (of_int n) = n"
  by (simp add: rint_def)

lemma round2_hundredths: "round2 (of_int n / 100) = of_int n / 100"
  by (simp add: round2_def)

lemma round2_values [simp]:
  "round2 0 = 0" "round2 1 = 1" "round2 (- 1) = - 1" "round2 2 = 2" "round2 10 = 10"
  "round2 20 = 20" "round2 50 = 50"
  using round2_hundredths [of 0] round2_hundredths [of 100] round2_hundredths [of "- 100"]
    round2_hundredths [of 200] round2_hundredths [of 1000] round2_hundredths [of 2000]
    round2_hundredths [of 5000]
  by simp_all

subsection \<open>A frame in which nothing is flagged\<close>

text \<open>
  Claim C3 says that no record that is not flagged ever appears in the panel. The
  code does not keep to it on a frame with rows of which none is flagged: the two
  movements of \<open>df_pair\<close> are both unflagged, and the panel that is returned has a
  line for each of them, holding the record's label and score and NaN elsewhere.
  (On this frame the mean 2, the deviation 1 and the scores -1 and 1 are computed
  without rounding, and lines whose key is NaN keep their order.)
\<close>

theorem unflagged_rows_reach_panel:
  "flag_any no_rounding df_pair = [False, False]
   \<and> build_alert_panel no_rounding keep_order df_pair =
       [Blank 0 (Some (- 1)), Blank 1 (Some 1)]"
proof -
  have n: "\<not> some_flagged no_rounding df_pair"
    by (simp add: some_flagged_def flag_any_df_pair)
  have "build_alert_panel no_rounding keep_order df_pair =
        [Blank 0 (Some (- 1)), Blank 1 (Some 1)]"
    by (simp add: panel_unflagged [OF n] upt_0_2 scores_df_pair fround2_def
        sort_values_desc_def keep_order_def)
  then show ?thesis by (simp add: flag_any_df_pair)
qed

subsection \<open>What an entry of the panel carries\<close>

lemma flagged_numeric:
  assumes "i < length df" "flag_any err df ! i"
  shows "\<exists>q. qtd (df ! i) = Some q"
proof (cases "qtd (df ! i)")
  case None
  then have "\<not> calc_zscore_flags err df 3 ! i" "\<not> calc_iqr_flags df (3 / 2) ! i"
    using assms(1) by (simp_all add: calc_zscore_flags_nth calc_iqr_flags_nth Let_def)
  with assms show ?thesis by (simp add: flag_any_nth)
next
  case (Some q)
  then show ?thesis by simp
qed

lemma impacto_panel_row [simp]:
  "impacto (panel_row err df i) = fround2 (fmul (fabs (qtd (df ! i))) (custo_unit (df ! i)))"
  by (simp add: panel_row_def)



lemma row4_df_spike: "df_spike ! 4 = mov ''U01'' ''MAT-001'' (Some 5) 10"
  by (simp add: df_spike_def)

lemma std_df_spike: "std 0 [0, 0, 0, 0, 5] = 2" "mean [0, 0, 0, 0, 5] = 1"
  by (simp_all add: std_def variance_def mean_def)

lemma score4_df_spike: "transform_series (stats_zscore no_rounding) df_spike ! 4 = Some 2"
  by (simp add: transform_zscore_nth group_values_df_spike_any std_df_spike row4_df_spike
      mov_def no_rounding_def)

lemma some_flagged_df_spike: "some_flagged no_rounding df_spike"
  by (simp add: some_flagged_def flag_any_df_spike)

lemma panel_df_spike:
  "build_alert_panel no_rounding keep_order df_spike =
     [Entry \<lparr>data = 0, unidade = ''U01'', material = ''MAT-001'', tipo = ''saida'',
        qtd = Some 5, row_label = 4, zscore = Some 2, flag_zscore = False, flag_iqr = True,
        impacto = Some 50\<rparr>]"
  by (simp add: panel_flagged [OF some_flagged_df_spike] flag_any_df_spike upt_0_5
      sort_values_desc_def keep_order_def panel_row_def score4_df_spike zflags_df_spike
      iqrflags_df_spike
      row4_df_spike mov_def fround2_def fmul_def)


subsection \<open>Order of the panel\<close>




lemma length_df_order [simp]: "length df_order = 5"
  by (simp add: df_order_def)

lemma group_values_df_order: "i < 5 \<Longrightarrow> group_values df_order i = [0, 0, 0, 1, - 2]"
  unfolding df_order_def by (rule single_group_values) simp

lemma qtd_df_order: "map qtd df_order = [Some 0, Some 0, Some 0, Some 1, Some (- 2)]"
  by (simp add: df_order_def mov_def)

lemma flag_any_df_order: "flag_any no_rounding df_order = [False, False, False, True, True]"
proof -
  have q: "qtd (df_order ! i) = map qtd df_order ! i" if "i < 5" for i
    using that by simp
  have z: "calc_zscore_flags no_rounding df_order 3 = [False, False, False, False, False]"
    by (simp add: calc_zscore_flags_squares_list group_values_df_order q qtd_df_order
        variance_def mean_def power2_eq_square upt_0_5)
  have r: "calc_iqr_flags df_order (3 / 2) = [False, False, False, True, True]"
    by (simp add: calc_iqr_flags_list group_values_df_order q qtd_df_order quantile_def
        upt_0_5)
  show ?thesis
    by (simp add: flag_any_def any_axis1_def z r upt_0_5)
qed

lemma some_flagged_df_order: "some_flagged no_rounding df_order"
  by (simp add: some_flagged_def flag_any_df_order)

lemma impacts_df_order:
  "impacto (panel_row no_rounding df_order 3) = Some 10"
  "impacto (panel_row no_rounding df_order 4) = Some 20"
  by (simp_all add: df_order_def mov_def fround2_def fmul_def)

text \<open>On \<open>df_order\<close> the two flagged rows come out in the reverse of their order in the
  frame, the costlier first.\<close>

lemma panel_df_order:
  "build_alert_panel no_rounding keep_order df_order =
     [Entry (panel_row no_rounding df_order 4), Entry (panel_row no_rounding df_order 3)]"
  by (simp add: panel_flagged [OF some_flagged_df_order] flag_any_df_order upt_0_5
      sort_values_desc_def keep_order_def impacts_df_order del: impacto_panel_row)



text \<open>What the source does fix about lines of equal impact: a kernel that keeps the
  order of its input, as a stable one does, returns them in the order of the frame.\<close>

lemma sort_values_desc_stable:
  "filter (\<lambda>l. line_impacto l = k) (sort_values_desc keep_order xs) =
   filter (\<lambda>l. line_impacto l = k) xs"
proof -
  have "filter (\<lambda>l. line_impacto l = k) (sort_values_desc keep_order xs) =
        rev (filter (\<lambda>l. line_impacto l = k) (sort_key line_impacto (rev xs)))"
    by (simp add: sort_values_desc_def keep_order_def rev_filter)
  also have "\<dots> = rev (filter (\<lambda>l. line_impacto l = k) (rev xs))"
    by (simp only: sort_key_stable)
  also have "\<dots> = filter (\<lambda>l. line_impacto l = k) xs"
    by (simp add: rev_filter)
  finally show ?thesis .
qed

subsection \<open>A record with a missing quantity\<close>






lemma calc_iqr_flags_numbers:
  assumes "i < length df"
  shows "calc_iqr_flags df k ! i =
     (let q1 = quantile (1 / 4) (map Some (group_values df i));
          q3 = quantile (3 / 4) (map Some (group_values df i));
          iqr = fsub q3 q1
      in flt (qtd (df ! i)) (fsub q1 (fscale k iqr)) \<or>
         flt (fadd q3 (fscale k iqr)) (qtd (df ! i)))"
  by (simp only: calc_iqr_flags_nth [OF assms] quantile_numbers)






lemma length_df_missing [simp]: "length df_missing = 6"
  by (simp add: df_missing_def)







subsection \<open>A flagged row has a score\<close>

lemma variance_0_const:
  assumes "variance 0 vs = 0"
  shows "\<forall>v\<in>set vs. v = mean vs"
proof (cases "vs = []")
  case True
  then show ?thesis by simp
next
  case False
  then have "sum_list (map (\<lambda>v. (v - mean vs)\<^sup>2) vs) = 0"
    using assms by (simp add: variance_def)
  then show ?thesis by (simp only: sum_list_sq_eq_0_iff)
qed

lemma quantile_const:
  assumes "0 \<le> p" "p \<le> 1" "vs \<noteq> []" "\<forall>v\<in>set vs. v = c"
  shows "quantile p (map Some vs) = Some c"
proof -
  let ?s = "sort vs"
  let ?n = "length vs"
  let ?pos = "p * real (?n - 1)"
  have ne: "?s \<noteq> []" using assms(3) by (metis length_sort length_0_conv)
  have all: "\<And>k. k < ?n \<Longrightarrow> ?s ! k = c"
    using assms(4) by (metis length_sort nth_mem set_sort)
  have "?pos \<le> real (?n - 1)"
    using mult_right_mono [OF assms(2), of "real (?n - 1)"] by simp
  then have "\<lfloor>?pos\<rfloor> \<le> int (?n - 1)" by linarith
  moreover have "0 \<le> ?pos" using assms(1) by simp
  ultimately have lo: "nat \<lfloor>?pos\<rfloor> < ?n" using assms(3) by (cases vs) auto
  have hi: "min (nat \<lfloor>?pos\<rfloor> + 1) (?n - 1) < ?n" using assms(3) by (cases vs) auto
  show ?thesis
    using ne all [OF lo] all [OF hi] by (simp add: quantile_def Let_def)
qed

text \<open>A row that is flagged lies in a group that is not constant, so its score is a
  number: no entry of the panel has a NaN score.\<close>

lemma flagged_has_score:
  assumes "i < length df" "flag_any err df ! i"
  shows "std 0 (group_values df i) \<noteq> 0"
proof
  assume z: "std 0 (group_values df i) = 0"
  let ?vs = "group_values df i"
  from flagged_numeric [OF assms] obtain q where q: "qtd (df ! i) = Some q" ..
  have mem: "q \<in> set ?vs" by (rule own_value_in_group [OF assms(1) q])
  then have ne: "?vs \<noteq> []" by auto
  have c: "\<forall>v\<in>set ?vs. v = mean ?vs"
    using z by (intro variance_0_const) (simp add: std_eq_0_iff)
  with mem have qc: "q = mean ?vs" by simp
  have q1: "quantile (1 / 4) (map Some ?vs) = Some (mean ?vs)"
    by (rule quantile_const [OF _ _ ne c]) simp_all
  have q3: "quantile (3 / 4) (map Some ?vs) = Some (mean ?vs)"
    by (rule quantile_const [OF _ _ ne c]) simp_all
  have "\<not> calc_iqr_flags df (3 / 2) ! i"
    using q qc by (simp add: calc_iqr_flags_numbers [OF assms(1)] q1 q3)
  moreover have "\<not> calc_zscore_flags err df 3 ! i"
    using z by (simp add: calc_zscore_flags_nth [OF assms(1)])
  ultimately show False using assms by (simp add: flag_any_nth)
qed

subsection \<open>The call as an operation on the store\<close>

lemma setitem_last: "setitem (length s) f (s @ [d]) = s @ [f d]"
  by (simp add: setitem_def)

lemma copy_obj_eq: "copy_obj arg s = (length s, s @ [s ! arg])"
  by (simp add: copy_obj_def)

text \<open>The outcome of the call, and the frame that it leaves behind at the new
  reference: the copy of the argument with the three flag columns set.\<close>

lemma build_alert_panel_obj_result:
  assumes "arg < length s"
  shows "build_alert_panel_obj err arrange arg s =
     (if rows (s ! arg) = [] \<and> object_typed (s ! arg) then Inr Empty_object_panel
      else Inr (Numeric_panel (build_alert_panel err arrange (rows (s ! arg)))),
      s @ [(s ! arg)\<lparr>col_flag_zscore := Some (calc_zscore_flags err (rows (s ! arg)) 3),
                      col_flag_iqr := Some (calc_iqr_flags (rows (s ! arg)) (3 / 2)),
                      col_flag_any := Some (flag_any err (rows (s ! arg)))\<rparr>])"
proof -
  let ?d = "rows (s ! arg)"
  have e: "(\<lambda>i. Entry
        \<lparr>data = data (?d ! i), unidade = unidade (?d ! i), material = material (?d ! i),
         tipo = tipo (?d ! i), qtd = qtd (?d ! i), row_label = i,
         zscore = map fround2 (transform_series (stats_zscore err) ?d) ! i,
         flag_zscore = calc_zscore_flags err ?d 3 ! i,
         flag_iqr = calc_iqr_flags ?d (3 / 2) ! i,
         impacto = fround2 (fmul (fabs (qtd (?d ! i))) (custo_unit (?d ! i)))\<rparr>) =
      (\<lambda>i. Entry (panel_row err ?d i))"
    by (simp only: panel_row_def)
  have n: "\<not> length s \<le> arg" using assms by simp
  have a: "any_axis1 [calc_zscore_flags err ?d 3, calc_iqr_flags ?d (3 / 2)] (length ?d) =
           flag_any err ?d"
    by (simp only: flag_any_def)
  show ?thesis
  proof (cases "rows (s ! arg) = [] \<and> object_typed (s ! arg)")
    case True
    then show ?thesis
      unfolding build_alert_panel_obj_def copy_obj_eq
      apply (simp only: n if_False)
      apply (subst Let_def)
      apply (simp only: split_conv)
      apply (simp add: setitem_last flag_any_def del: Let_def)
      done
  next
    case False
    then have c: "(rows (s ! arg) = [] \<and> object_typed (s ! arg)) = False" by simp
    show ?thesis
      unfolding build_alert_panel_obj_def copy_obj_eq
      apply (simp only: n if_False)
      apply (subst Let_def)
      apply (simp only: split_conv)
      apply (simp add: setitem_last a c del: Let_def)
      apply (simp only: e build_alert_panel_def Let_def)
      apply (simp only: if_distrib [of Inr, symmetric]
          if_distrib [of Numeric_panel, symmetric] if_distrib [of "\<lambda>p. (p, _)", symmetric])
      done
  qed
qed

lemma run_pipeline_result:
  assumes "arg < length s"
  shows "run_pipeline err arrange arg s =
     (if rows (s ! arg) = [] \<and> object_typed (s ! arg) then Inl AttributeError
      else Inr (Numeric_panel (build_alert_panel err arrange (rows (s ! arg))),
                round2 (sum_list (dropna (map line_impacto
                  (build_alert_panel err arrange (rows (s ! arg))))))),
      s @ [(s ! arg)\<lparr>col_flag_zscore := Some (calc_zscore_flags err (rows (s ! arg)) 3),
                      col_flag_iqr := Some (calc_iqr_flags (rows (s ! arg)) (3 / 2)),
                      col_flag_any := Some (flag_any err (rows (s ! arg)))\<rparr>])"
  by (simp add: run_pipeline_def build_alert_panel_obj_result [OF assms])

text \<open>
  Claim C10. A run of the pipeline on a frame of the store leaves every frame that
  was in the store as it was, the argument among them: the columns it sets are set
  on a copy. A second run on the same reference, in the store the first run left,
  has the same outcome as the first, and again changes no frame that was there.
  The outcome is a panel and its aggregate impact, the panel being the one made
  from the rows of the argument; only on a frame without rows whose columns are of
  dtype \<^verbatim>\<open>object\<close> is it, both times, the \<^verbatim>\<open>AttributeError\<close> of the aggregation.
\<close>

theorem pipeline_repeatable_and_input_unchanged:
  assumes "arg < length s"
  shows "\<exists>outcome s1 s2.
           run_pipeline err arrange arg s = (outcome, s1)
         \<and> run_pipeline err arrange arg s1 = (outcome, s2)
         \<and> (if rows (s ! arg) = [] \<and> object_typed (s ! arg)
            then outcome = Inl AttributeError
            else \<exists>painel total. outcome = Inr (painel, total)
                   \<and> painel = Numeric_panel (build_alert_panel err arrange (rows (s ! arg)))
                   \<and> estimate_financial_impact painel = Inr total)
         \<and> s1 ! arg = s ! arg \<and> s2 ! arg = s ! arg
         \<and> take (length s) s1 = s \<and> take (length s1) s2 = s1"
proof -
  let ?c = "(s ! arg)\<lparr>col_flag_zscore := Some (calc_zscore_flags err (rows (s ! arg)) 3),
                        col_flag_iqr := Some (calc_iqr_flags (rows (s ! arg)) (3 / 2)),
                        col_flag_any := Some (flag_any err (rows (s ! arg)))\<rparr>"
  let ?s1 = "s @ [?c]"
  let ?p = "build_alert_panel err arrange (rows (s ! arg))"
  let ?o = "if rows (s ! arg) = [] \<and> object_typed (s ! arg) then Inl AttributeError
            else Inr (Numeric_panel ?p, round2 (sum_list (dropna (map line_impacto ?p))))"
  have a1: "arg < length ?s1" using assms by simp
  have same: "?s1 ! arg = s ! arg" using assms by (simp add: nth_append)
  have r1: "run_pipeline err arrange arg s = (?o, ?s1)"
    by (rule run_pipeline_result [OF assms])
  have r2: "run_pipeline err arrange arg ?s1 = (?o, ?s1 @ [?c])"
    using run_pipeline_result [OF a1, of err arrange] by (simp only: same)
  have o: "if rows (s ! arg) = [] \<and> object_typed (s ! arg)
           then ?o = Inl AttributeError
           else \<exists>painel total. ?o = Inr (painel, total)
                  \<and> painel = Numeric_panel ?p
                  \<and> estimate_financial_impact painel = Inr total"
    by simp
  have k: "(?s1 @ [?c]) ! arg = s ! arg" using assms by (simp add: nth_append)
  have t: "take (length s) ?s1 = s" "take (length ?s1) (?s1 @ [?c]) = ?s1" by simp_all
  from r1 r2 o same k t show ?thesis by blast
qed

lemma estimate_df_spike:
  "estimate_financial_impact (Numeric_panel (build_alert_panel no_rounding keep_order df_spike))
     = Inr 50"
  by (simp add: panel_df_spike)

theorem pipeline_repeatable_and_input_unchanged_witness:
  "0 < length store_spike
   \<and> (\<exists>s1 s2.
         run_pipeline no_rounding keep_order 0 store_spike =
           (Inr (Numeric_panel (build_alert_panel no_rounding keep_order df_spike), 50), s1)
       \<and> run_pipeline no_rounding keep_order 0 s1 =
           (Inr (Numeric_panel (build_alert_panel no_rounding keep_order df_spike), 50), s2)
       \<and> s1 ! 0 = store_spike ! 0 \<and> s2 ! 0 = store_spike ! 0)"
proof -
  have l: "0 < length store_spike" by (simp add: store_spike_def)
  have r: "rows (store_spike ! 0) = df_spike" by (simp add: store_spike_def)
  have n: "df_spike \<noteq> []" by (simp add: df_spike_def)
  from pipeline_repeatable_and_input_unchanged [OF l, of no_rounding keep_order]
  obtain outcome s1 s2 where
    "run_pipeline no_rounding keep_order 0 store_spike = (outcome, s1)"
    "run_pipeline no_rounding keep_order 0 s1 = (outcome, s2)"
    "\<exists>painel total. outcome = Inr (painel, total)
       \<and> painel = Numeric_panel (build_alert_panel no_rounding keep_order df_spike)
       \<and> estimate_financial_impact painel = Inr total"
    "s1 ! 0 = store_spike ! 0" "s2 ! 0 = store_spike ! 0"
    unfolding r using n by auto
  then have "run_pipeline no_rounding keep_order 0 store_spike =
           (Inr (Numeric_panel (build_alert_panel no_rounding keep_order df_spike), 50), s1)
       \<and> run_pipeline no_rounding keep_order 0 s1 =
           (Inr (Numeric_panel (build_alert_panel no_rounding keep_order df_spike), 50), s2)
       \<and> s1 ! 0 = store_spike ! 0 \<and> s2 ! 0 = store_spike ! 0"
    using estimate_df_spike by auto
  then show ?thesis using l by blast
qed

subsection \<open>Aggregate impact\<close>

text \<open>On a panel whose impact column is \<^verbatim>\<open>float64\<close> and holds the numbers \<open>vs\<close>, the
  aggregate is the sum of \<open>vs\<close> rounded to two decimals: a multiple of 0.01 within
  0.005 of the sum. On such a panel without lines it is 0.\<close>

lemma estimate_numeric_panel:
  assumes "map line_impacto anomalies = map Some vs"
  shows "estimate_financial_impact (Numeric_panel anomalies) = Inr (round2 (sum_list vs))"
    and "\<bar>round2 (sum_list vs) - sum_list vs\<bar> \<le> 1 / 200"
    and "\<exists>n::int. round2 (sum_list vs) = of_int n / 100"
  using assms round2_nearest [of "sum_list vs"] by simp_all

lemma estimate_numeric_empty: "estimate_financial_impact (Numeric_panel []) = Inr 0"
  by simp

lemma estimate_df_order:
  "estimate_financial_impact (Numeric_panel (build_alert_panel no_rounding keep_order df_order))
     = Inr 30"
proof -
  have "map line_impacto (build_alert_panel no_rounding keep_order df_order) =
        map Some [20, 10]"
    by (simp add: panel_df_order impacts_df_order del: impacto_panel_row)
  from estimate_numeric_panel(1) [OF this] show ?thesis
    using round2_hundredths [of 3000] by simp
qed

lemma length_store_empty [simp]:
  "length store_empty_object = 1" "length store_empty_numeric = 1"
  by (simp_all add: store_empty_object_def store_empty_numeric_def)

lemma panel_store_empty_object:
  "fst (build_alert_panel_obj err arrange 0 store_empty_object) = Inr Empty_object_panel"
  by (simp add: build_alert_panel_obj_result) (simp add: store_empty_object_def)

text \<open>
  Claim C6 says that the aggregate of an empty panel is 0.00. The code does not keep
  to it on the panel of the frame that the generator of the source returns for zero
  days: that panel has no lines and its impact column is of dtype \<^verbatim>\<open>object\<close>, the sum
  of the column is the Python integer 0, and rounding it raises \<^verbatim>\<open>AttributeError\<close>.
\<close>

theorem estimate_financial_impact_fails_on_empty_panel:
  "fst (build_alert_panel_obj no_rounding keep_order 0 store_empty_object) =
     Inr Empty_object_panel
   \<and> panel_lines Empty_object_panel = []
   \<and> estimate_financial_impact Empty_object_panel = Inl AttributeError"
  by (simp add: panel_store_empty_object)

subsection \<open>The empty frame\<close>

text \<open>On a frame without rows whose columns are numeric, the run returns the panel
  without lines and the aggregate 0.\<close>

lemma run_pipeline_empty_numeric:
  assumes "rearranges arrange"
  shows "fst (run_pipeline err arrange 0 store_empty_numeric) = Inr (Numeric_panel [], 0)"
proof -
  have r: "rows (store_empty_numeric ! 0) = []" "\<not> object_typed (store_empty_numeric ! 0)"
    by (simp_all add: store_empty_numeric_def)
  have p: "build_alert_panel err arrange [] = []"
    by (simp add: build_alert_panel_def sorts_Nil [OF assms])
  show ?thesis
    by (simp add: run_pipeline_result r p)
qed

text \<open>
  Claim C9 says that the pipeline does not fail on the empty dataset. The code does
  not keep to it on the empty dataset of its own generator, the frame returned for
  zero days, whose columns are of dtype \<^verbatim>\<open>object\<close>: the panel is built, without lines,
  and the aggregation of that panel raises \<^verbatim>\<open>AttributeError\<close>, so the run ends in a
  failure and no aggregate is returned.
\<close>

theorem empty_dataset_pipeline_fails:
  "rows (store_empty_object ! 0) = []
   \<and> fst (build_alert_panel_obj no_rounding keep_order 0 store_empty_object) =
       Inr Empty_object_panel
   \<and> fst (run_pipeline no_rounding keep_order 0 store_empty_object) = Inl AttributeError"
proof -
  have r: "rows (store_empty_object ! 0) = []" "object_typed (store_empty_object ! 0)"
    by (simp_all add: store_empty_object_def)
  show ?thesis
    by (simp add: run_pipeline_result panel_store_empty_object r)
qed

end
